theory Spec2Isabelle
  imports Main "HOL-Library.AList"
begin

section \<open>JavaScript values\<close>

text \<open>
  The handler of \<^verbatim>\<open>server/user.js\<close> is untyped: what the remote API, the store driver
  and the query string hand to it are arbitrary JavaScript values, and its control flow
  rests on their truthiness and on property reads. Values are therefore modelled as a
  datatype. Numbers are integers (identifiers, sizes and status codes; no NaN), an
  \<^verbatim>\<open>Error\<close> object is \<open>JError\<close> with its message, an array is the list of its elements.
\<close>

datatype jsval =
    JUndefined
  | JNull
  | JBool bool
  | JNum int
  | JStr string
  | JArr "jsval list"
  | JObj "(string \<times> jsval) list"
  | JError string

text \<open>\<^verbatim>\<open>!v\<close> is \<open>\<not> truthy v\<close>.\<close>

fun truthy :: "jsval \<Rightarrow> bool" where
  "truthy JUndefined = False"
| "truthy JNull = False"
| "truthy (JBool b) = b"
| "truthy (JNum n) = (n \<noteq> 0)"
| "truthy (JStr s) = (s \<noteq> [])"
| "truthy (JArr xs) = True"
| "truthy (JObj kvs) = True"
| "truthy (JError m) = True"

text \<open>A computation that may throw: \<open>Inl\<close> carries the thrown value.\<close>

type_synonym 'a thrown = "jsval + 'a"

definition bind_thrown :: "'a thrown \<Rightarrow> ('a \<Rightarrow> 'b thrown) \<Rightarrow> 'b thrown" where
  "bind_thrown r f = (case r of Inl e \<Rightarrow> Inl e | Inr x \<Rightarrow> f x)"

definition type_error :: jsval where
  "type_error = JError ''TypeError''"

definition obj_get :: "(string \<times> jsval) list \<Rightarrow> string \<Rightarrow> jsval" where
  "obj_get kvs k = (case map_of kvs k of None \<Rightarrow> JUndefined | Some v \<Rightarrow> v)"

text \<open>
  \<^verbatim>\<open>v.k\<close> for a property name \<open>k\<close> (the names in the source are identifiers, an array
  element is read with \<open>get_index\<close>): a TypeError on \<^verbatim>\<open>undefined\<close> and \<^verbatim>\<open>null\<close>,
  \<^verbatim>\<open>undefined\<close> for a property that is not there.
\<close>

fun get_prop :: "jsval \<Rightarrow> string \<Rightarrow> jsval thrown" where
  "get_prop JUndefined k = Inl type_error"
| "get_prop JNull k = Inl type_error"
| "get_prop (JBool b) k = Inr JUndefined"
| "get_prop (JNum n) k = Inr JUndefined"
| "get_prop (JStr s) k = Inr (if k = ''length'' then JNum (int (length s)) else JUndefined)"
| "get_prop (JArr xs) k = Inr (if k = ''length'' then JNum (int (length xs)) else JUndefined)"
| "get_prop (JObj kvs) k = Inr (obj_get kvs k)"
| "get_prop (JError m) k = Inr (if k = ''message'' then JStr m else JUndefined)"

text \<open>The decimal name of an index, the key under which a plain object holds \<^verbatim>\<open>o[i]\<close>.\<close>

fun index_key :: "nat \<Rightarrow> string" where
  "index_key n =
     (if n < 10 then [char_of (48 + n)]
      else index_key (n div 10) @ [char_of (48 + n mod 10)])"

text \<open>\<^verbatim>\<open>v[i]\<close> for a literal index \<open>i\<close>; out of range it is \<^verbatim>\<open>undefined\<close>.\<close>

fun get_index :: "jsval \<Rightarrow> nat \<Rightarrow> jsval thrown" where
  "get_index JUndefined i = Inl type_error"
| "get_index JNull i = Inl type_error"
| "get_index (JBool b) i = Inr JUndefined"
| "get_index (JNum n) i = Inr JUndefined"
| "get_index (JStr s) i = Inr (if i < length s then JStr [s ! i] else JUndefined)"
| "get_index (JArr xs) i = Inr (if i < length xs then xs ! i else JUndefined)"
| "get_index (JObj kvs) i = Inr (obj_get kvs (index_key i))"
| "get_index (JError m) i = Inr JUndefined"

text \<open>\<^verbatim>\<open>v?.k\<close>: \<^verbatim>\<open>undefined\<close> when \<open>v\<close> is \<^verbatim>\<open>undefined\<close> or \<^verbatim>\<open>null\<close>.\<close>

definition get_prop_opt :: "jsval \<Rightarrow> string \<Rightarrow> jsval thrown" where
  "get_prop_opt v k = (if v = JUndefined \<or> v = JNull then Inr JUndefined else get_prop v k)"

text \<open>
  \<^verbatim>\<open>v.k = x\<close> in strict mode (the module starts with \<^verbatim>\<open>'use strict'\<close>): the object
  updated, a TypeError on \<^verbatim>\<open>undefined\<close>, \<^verbatim>\<open>null\<close> and on a primitive. A named
  property stored on an array or on an Error object is not represented.
\<close>

fun set_prop :: "jsval \<Rightarrow> string \<Rightarrow> jsval \<Rightarrow> jsval thrown" where
  "set_prop (JObj kvs) k x = Inr (JObj (AList.update k x kvs))"
| "set_prop (JArr xs) k x = Inr (JArr xs)"
| "set_prop (JError m) k x = Inr (JError m)"
| "set_prop v k x = Inl type_error"

section \<open>Promises, the remote client, the store and what the handler does\<close>

datatype promise = Resolved jsval | Rejected jsval | Pending

text \<open>
  \<^verbatim>\<open>client.query\<close> is a call into the Shopify client: it may throw at once or
  return a promise (a plain value returned is \<open>Returns (Resolved v)\<close>, which is how
  \<^verbatim>\<open>await\<close> and \<^verbatim>\<open>Promise.resolve\<close> read it). The query text is kept as its shape
  and the identifier interpolated into it.
\<close>

datatype call_result = Throws jsval | Returns promise

datatype remote_query =
    CustomerQuery jsval
  | ProductQuery jsval
  | ProductImageList jsval

text \<open>
  The collaborators of one request: the remote client, and the store, whose driver calls
  the callback of \<^verbatim>\<open>db.query\<close> once with \<^verbatim>\<open>(err, results)\<close>.
\<close>

record env =
  client_query :: "remote_query \<Rightarrow> call_result"
  db_query :: "jsval \<Rightarrow> jsval \<times> jsval"

text \<open>What a request makes happen, in order.\<close>

datatype event =
    RemoteCall remote_query
  | StoreQuery jsval
  | ConsoleError string jsval
  | Respond nat jsval
  | UnhandledRejection jsval
  | UncaughtException jsval

type_synonym callback = "jsval \<Rightarrow> event list \<times> jsval thrown"

text \<open>\<^verbatim>\<open>p.then(f)\<close> and \<^verbatim>\<open>p.catch(f)\<close>: the events of the callback and the new promise.\<close>

definition settle :: "event list \<times> jsval thrown \<Rightarrow> event list \<times> promise" where
  "settle r = (case r of (es, Inl e) \<Rightarrow> (es, Rejected e) | (es, Inr v) \<Rightarrow> (es, Resolved v))"

fun then_p :: "promise \<Rightarrow> callback \<Rightarrow> event list \<times> promise" where
  "then_p (Resolved v) f = settle (f v)"
| "then_p (Rejected e) f = ([], Rejected e)"
| "then_p Pending f = ([], Pending)"

fun catch_p :: "promise \<Rightarrow> callback \<Rightarrow> event list \<times> promise" where
  "catch_p (Resolved v) f = ([], Resolved v)"
| "catch_p (Rejected e) f = settle (f e)"
| "catch_p Pending f = ([], Pending)"

text \<open>A promise that rejects with no handler attached.\<close>

fun unhandled :: "promise \<Rightarrow> event list" where
  "unhandled (Rejected e) = [UnhandledRejection e]"
| "unhandled p = []"

text \<open>
  \<^verbatim>\<open>Promise.all\<close>: rejected as soon as one member is, resolved to the array of values
  when all are. Which of two rejections comes first in time is not modelled: the reason
  kept is that of the first member of the list.
\<close>

fun first_rejection :: "promise list \<Rightarrow> jsval option" where
  "first_rejection [] = None"
| "first_rejection (Rejected e # ps) = Some e"
| "first_rejection (p # ps) = first_rejection ps"

fun resolved_values :: "promise list \<Rightarrow> jsval list option" where
  "resolved_values [] = Some []"
| "resolved_values (Resolved v # ps) = map_option (Cons v) (resolved_values ps)"
| "resolved_values (p # ps) = None"

definition promise_all :: "promise list \<Rightarrow> promise" where
  "promise_all ps =
     (case first_rejection ps of
        Some e \<Rightarrow> Rejected e
      | None \<Rightarrow> (case resolved_values ps of Some vs \<Rightarrow> Resolved (JArr vs) | None \<Rightarrow> Pending))"

definition error_body :: "string \<Rightarrow> jsval" where
  "error_body msg = JObj [(''error'', JStr msg)]"

section \<open>fetchCustomerData\<close>

text \<open>
  \<^verbatim>\<open>async function fetchCustomerData(customerId)\<close>: whatever goes wrong inside the
  \<^verbatim>\<open>try\<close> (the call throwing, its promise rejecting, a TypeError on
  \<^verbatim>\<open>response.data.customer\<close>) is logged and rethrown as a new Error.
\<close>

definition customer_failure :: "remote_query \<Rightarrow> jsval \<Rightarrow> event list \<times> promise" where
  "customer_failure q error =
     ([RemoteCall q, ConsoleError ''Error fetching customer data:'' error],
      Rejected (JError ''Failed to fetch customer data''))"

definition fetchCustomerData :: "env \<Rightarrow> jsval \<Rightarrow> event list \<times> promise" where
  "fetchCustomerData e customerId =
     (let q = CustomerQuery customerId in
      case client_query e q of
        Throws error \<Rightarrow> customer_failure q error
      | Returns (Rejected error) \<Rightarrow> customer_failure q error
      | Returns Pending \<Rightarrow> ([RemoteCall q], Pending)
      | Returns (Resolved response) \<Rightarrow>
          (case bind_thrown (get_prop response ''data'') (\<lambda>d. get_prop d ''customer'') of
             Inl error \<Rightarrow> customer_failure q error
           | Inr customer \<Rightarrow> ([RemoteCall q], Resolved customer)))"

section \<open>fetchProductData\<close>

text \<open>The callback given to \<^verbatim>\<open>Promise.all(...).then\<close>.\<close>

definition product_image :: "jsval \<Rightarrow> jsval thrown" where
  "product_image node =
     bind_thrown (get_prop node ''id'') (\<lambda>i.
     bind_thrown (get_prop node ''alt'') (\<lambda>alt.
     bind_thrown (get_prop node ''image'') (\<lambda>im.
     bind_thrown (get_prop im ''url'') (\<lambda>url.
     bind_thrown (get_prop im ''width'') (\<lambda>width.
     bind_thrown (get_prop im ''height'') (\<lambda>height.
       Inr (JObj [(''id'', i), (''alt'', alt), (''url'', url),
                  (''width'', width), (''height'', height)])))))))"

definition merge_responses :: "jsval \<Rightarrow> jsval thrown" where
  "merge_responses responses =
     bind_thrown (get_index responses 0) (\<lambda>r0.
     bind_thrown (get_prop r0 ''data'') (\<lambda>d0.
     bind_thrown (get_prop d0 ''product'') (\<lambda>product.
       if \<not> truthy product then Inr JNull
       else
         bind_thrown (get_index responses 1) (\<lambda>r1.
         bind_thrown (get_prop r1 ''data'') (\<lambda>d1.
         bind_thrown (get_prop d1 ''product'') (\<lambda>p1.
         bind_thrown (get_prop p1 ''media'') (\<lambda>media.
         bind_thrown (get_prop media ''nodes'') (\<lambda>nodes.
         bind_thrown (get_index nodes 0) (\<lambda>image.
           if truthy image
           then bind_thrown (product_image image) (\<lambda>img. set_prop product ''image'' img)
           else Inr product)))))))))"

text \<open>
  What a call of \<^verbatim>\<open>fetchProductData\<close> amounts to: the events inside it, the promise the
  caller gets, and the promises it started and left to themselves (nothing awaits them
  and nothing handles their rejection).
\<close>

record fetched =
  calls :: "event list"
  returned :: promise
  floating :: "promise list"

definition product_failure :: jsval where
  "product_failure = JError ''Failed to fetch product data''"

text \<open>
  \<^verbatim>\<open>async function fetchProductData(productId)\<close>. The two queries are started inside the
  \<^verbatim>\<open>try\<close>; the statement \<^verbatim>\<open>Promise.all([productData, productImage]).then(...)\<close> is
  neither returned nor awaited, so the function body ends without a \<^verbatim>\<open>return\<close> and the
  promise of the async function resolves to \<^verbatim>\<open>undefined\<close>. The \<^verbatim>\<open>catch\<close> sees only a
  throw of \<^verbatim>\<open>client.query\<close> itself.
\<close>

definition fetchProductData :: "env \<Rightarrow> jsval \<Rightarrow> fetched" where
  "fetchProductData e productId =
     (let qa = ProductQuery productId; qb = ProductImageList productId in
      case client_query e qa of
        Throws error \<Rightarrow>
          \<lparr>calls = [RemoteCall qa, ConsoleError ''Error fetching product data:'' error],
           returned = Rejected product_failure,
           floating = []\<rparr>
      | Returns productData \<Rightarrow>
          (case client_query e qb of
             Throws error \<Rightarrow>
               \<lparr>calls = [RemoteCall qa, RemoteCall qb,
                         ConsoleError ''Error fetching product data:'' error],
                returned = Rejected product_failure,
                floating = [productData]\<rparr>
           | Returns productImage \<Rightarrow>
               \<lparr>calls = [RemoteCall qa, RemoteCall qb],
                returned = Resolved JUndefined,
                floating =
                  [snd (then_p (promise_all [productData, productImage])
                          (\<lambda>responses. ([], merge_responses responses)))]\<rparr>))"

section \<open>The route GET /users\<close>

text \<open>The object given to \<^verbatim>\<open>res.json\<close> on the success branch.\<close>

definition response_image :: "jsval \<Rightarrow> jsval thrown" where
  "response_image pic =
     (if truthy pic
      then
        bind_thrown (get_prop pic ''id'') (\<lambda>i.
        bind_thrown (get_prop pic ''alt'') (\<lambda>alt.
        bind_thrown (get_prop pic ''url'') (\<lambda>url.
        bind_thrown (get_prop pic ''width'') (\<lambda>width.
        bind_thrown (get_prop pic ''height'') (\<lambda>height.
          Inr (JObj [(''id'', i), (''alt'', alt), (''url'', url),
                     (''width'', width), (''height'', height)]))))))
      else Inr JNull)"

definition landing_view :: "jsval \<Rightarrow> jsval \<Rightarrow> jsval \<Rightarrow> jsval thrown" where
  "landing_view firstName profileImage productData =
     bind_thrown (get_prop productData ''id'') (\<lambda>i.
     bind_thrown (get_prop productData ''title'') (\<lambda>title.
     bind_thrown (get_prop productData ''description'') (\<lambda>description.
     bind_thrown (get_prop productData ''onlineStoreUrl'') (\<lambda>onlineStoreUrl.
     bind_thrown (get_prop productData ''image'') (\<lambda>image.
     bind_thrown (response_image image) (\<lambda>img.
       Inr (JObj [(''firstName'', firstName),
                  (''profileImage'', profileImage),
                  (''product'',
                     JObj [(''id'', i), (''title'', title), (''description'', description),
                           (''onlineStoreUrl'', onlineStoreUrl), (''image'', img)])])))))))"

text \<open>
  The callbacks return the value of \<^verbatim>\<open>res.status(..).json(..)\<close> or nothing; nobody reads
  it, and it is \<open>JUndefined\<close> here. \<^verbatim>\<open>res.json\<close> without a status answers 200.
\<close>

definition on_product_data :: "jsval \<Rightarrow> jsval \<Rightarrow> callback" where
  "on_product_data firstName profileImage productData =
     (if \<not> truthy productData then ([Respond 404 (error_body ''Product not found'')], Inr JUndefined)
      else
        (case landing_view firstName profileImage productData of
           Inl error \<Rightarrow> ([], Inl error)
         | Inr body \<Rightarrow> ([Respond 200 body], Inr JUndefined)))"

definition log_product_error :: callback where
  "log_product_error error = ([ConsoleError ''Error fetching product data:'' error], Inr JUndefined)"

definition fail_customer :: callback where
  "fail_customer error =
     ([ConsoleError ''Error fetching customer data:'' error,
       Respond 500 (error_body ''Failed to fetch customer data'')], Inr JUndefined)"

text \<open>
  Lines 112 to 139: \<^verbatim>\<open>fetchProductData(id).then(..).catch(..).catch(..)\<close>. Both
  \<^verbatim>\<open>catch\<close> handlers hang on the product chain: the brace that should close the
  first one's chain closes only its callback. The product fetcher is a parameter, so
  that the route can be studied with any fetcher; \<open>users_handler\<close> below puts the
  repository's own in.
\<close>

definition product_stage :: "(jsval \<Rightarrow> fetched) \<Rightarrow> jsval \<Rightarrow> jsval \<Rightarrow> jsval \<Rightarrow> event list" where
  "product_stage fetch firstName profileImage favoriteProductId =
     (let f = fetch favoriteProductId;
          (es1, p1) = then_p (returned f) (on_product_data firstName profileImage);
          (es2, p2) = catch_p p1 log_product_error;
          (es3, p3) = catch_p p2 fail_customer
      in calls f @ es1 @ es2 @ es3 @ unhandled p3 @ concat (map unhandled (floating f)))"

text \<open>The callback of \<^verbatim>\<open>db.query\<close>, lines 92 to 140. An exception in it is caught by nobody.\<close>

definition on_store_result ::
    "(jsval \<Rightarrow> fetched) \<Rightarrow> jsval \<Rightarrow> jsval \<Rightarrow> jsval \<Rightarrow> jsval \<Rightarrow> event list" where
  "on_store_result fetch firstName profileImage err results =
     (if truthy err then [Respond 500 (error_body ''Database query error'')]
      else
        (case get_prop results ''length'' of
           Inl error \<Rightarrow> [UncaughtException error]
         | Inr len \<Rightarrow>
             if len = JNum 0 then [Respond 404 (error_body ''Favorite product not found'')]
             else
               (case bind_thrown (get_index results 0)
                       (\<lambda>row. get_prop_opt row ''favorite_product_id'') of
                  Inl error \<Rightarrow> [UncaughtException error]
                | Inr favoriteProductId \<Rightarrow>
                    product_stage fetch firstName profileImage favoriteProductId)))"

text \<open>The callback of \<^verbatim>\<open>fetchCustomerData(userId).then\<close>, lines 75 to 141.\<close>

definition on_customer_data :: "(jsval \<Rightarrow> fetched) \<Rightarrow> env \<Rightarrow> jsval \<Rightarrow> callback" where
  "on_customer_data fetch e userId customerData =
     (if \<not> truthy customerData then ([Respond 404 (error_body ''Customer not found'')], Inr JUndefined)
      else
        (case bind_thrown (get_prop customerData ''firstName'') (\<lambda>firstName.
              bind_thrown (get_prop customerData ''image'') (\<lambda>profileImage.
                Inr (firstName, profileImage))) of
           Inl error \<Rightarrow> ([], Inl error)
         | Inr (firstName, profileImage) \<Rightarrow>
             (StoreQuery userId #
                (case db_query e userId of
                   (err, results) \<Rightarrow> on_store_result fetch firstName profileImage err results),
              Inr JUndefined)))"

text \<open>
  \<^verbatim>\<open>app.get('/users', (req, res) => ...)\<close>, on the parsed query string \<^verbatim>\<open>req.query\<close>.
  The promise of \<^verbatim>\<open>fetchCustomerData(userId).then(...)\<close> has no rejection handler.
\<close>

definition users_handler_with :: "(jsval \<Rightarrow> fetched) \<Rightarrow> env \<Rightarrow> (string \<times> jsval) list \<Rightarrow> event list" where
  "users_handler_with fetch e query =
     (let userId = obj_get query ''user_id'' in
      if \<not> truthy userId then [Respond 400 (error_body ''Missing user_id query parameter'')]
      else
        (let (es1, p1) = fetchCustomerData e userId;
             (es2, p2) = then_p p1 (on_customer_data fetch e userId)
         in es1 @ es2 @ unhandled p2))"

definition users_handler :: "env \<Rightarrow> (string \<times> jsval) list \<Rightarrow> event list" where
  "users_handler e query = users_handler_with (fetchProductData e) e query"

section \<open>Reading a trace\<close>

fun sent_responses :: "event list \<Rightarrow> (nat \<times> jsval) list" where
  "sent_responses [] = []"
| "sent_responses (Respond s b # es) = (s, b) # sent_responses es"
| "sent_responses (ev # es) = sent_responses es"

fun remote_calls :: "event list \<Rightarrow> remote_query list" where
  "remote_calls [] = []"
| "remote_calls (RemoteCall q # es) = q # remote_calls es"
| "remote_calls (ev # es) = remote_calls es"

fun store_queries :: "event list \<Rightarrow> jsval list" where
  "store_queries [] = []"
| "store_queries (StoreQuery u # es) = u # store_queries es"
| "store_queries (ev # es) = store_queries es"

section \<open>Test doubles and the example of the specification\<close>

text \<open>A client that answers each query shape with a fixed result, and a store that calls back with a fixed pair.\<close>

definition client_of :: "call_result \<Rightarrow> call_result \<Rightarrow> call_result \<Rightarrow> remote_query \<Rightarrow> call_result" where
  "client_of c p m q =
     (case q of CustomerQuery u \<Rightarrow> c | ProductQuery i \<Rightarrow> p | ProductImageList i \<Rightarrow> m)"

definition store_of :: "jsval \<Rightarrow> jsval \<Rightarrow> jsval \<Rightarrow> jsval \<times> jsval" where
  "store_of err results u = (err, results)"

text \<open>A GraphQL answer \<^verbatim>\<open>{data: {k: v}}\<close>, and the media answer with no node.\<close>

definition data_response :: "string \<Rightarrow> jsval \<Rightarrow> jsval" where
  "data_response k v = JObj [(''data'', JObj [(k, v)])]"

definition no_media :: jsval where
  "no_media = data_response ''product'' (JObj [(''media'', JObj [(''nodes'', JArr [])])])"

definition favorite_row :: "jsval \<Rightarrow> jsval" where
  "favorite_row i = JObj [(''favorite_product_id'', i)]"

definition example_customer :: jsval where
  "example_customer =
     JObj [(''id'', JNum 42), (''firstName'', JStr ''Ana''),
           (''image'', JObj [(''src'', JStr ''https://x/a.png'')])]"

definition example_product :: jsval where
  "example_product =
     JObj [(''id'', JNum 99), (''title'', JStr ''Mug''), (''description'', JStr ''Ceramic''),
           (''onlineStoreUrl'', JStr ''https://shop/mug'')]"

definition example_env :: env where
  "example_env =
     \<lparr>client_query =
        client_of (Returns (Resolved (data_response ''customer'' example_customer)))
                  (Returns (Resolved (data_response ''product'' example_product)))
                  (Returns (Resolved no_media)),
      db_query = store_of JNull (JArr [favorite_row (JNum 99)])\<rparr>"

definition example_query :: "(string \<times> jsval) list" where
  "example_query = [(''user_id'', JStr ''42'')]"

text \<open>A second chain, and environments in which one stage fails.\<close>

definition other_customer :: jsval where
  "other_customer = JObj [(''id'', JNum 7), (''firstName'', JStr ''Bo''), (''image'', JNull)]"

definition other_product :: jsval where
  "other_product =
     JObj [(''id'', JStr ''gid://shopify/Product/5''), (''title'', JStr ''Lamp''),
           (''description'', JStr ''Oak''), (''onlineStoreUrl'', JNull)]"

definition other_env :: env where
  "other_env =
     \<lparr>client_query =
        client_of (Returns (Resolved (data_response ''customer'' other_customer)))
                  (Returns (Resolved (data_response ''product'' other_product)))
                  (Returns (Resolved no_media)),
      db_query = store_of JNull (JArr [favorite_row (JStr ''gid://shopify/Product/5'')])\<rparr>"

definition other_query :: "(string \<times> jsval) list" where
  "other_query = [(''user_id'', JStr ''7'')]"

definition rejecting_env :: "jsval \<Rightarrow> env" where
  "rejecting_env error =
     example_env\<lparr>client_query :=
       client_of (Returns (Rejected error))
                 (Returns (Resolved (data_response ''product'' example_product)))
                 (Returns (Resolved no_media))\<rparr>"

definition no_customer_env :: env where
  "no_customer_env =
     example_env\<lparr>client_query :=
       client_of (Returns (Resolved (data_response ''customer'' JNull)))
                 (Returns (Resolved (data_response ''product'' example_product)))
                 (Returns (Resolved no_media))\<rparr>"

definition store_env :: "jsval \<Rightarrow> jsval \<Rightarrow> env" where
  "store_env err results = example_env\<lparr>db_query := store_of err results\<rparr>"

section \<open>Helper lemmas\<close>

lemma sent_responses_append: "sent_responses (xs @ ys) = sent_responses xs @ sent_responses ys"
  by (induction xs rule: sent_responses.induct) simp_all

lemma remote_calls_append: "remote_calls (xs @ ys) = remote_calls xs @ remote_calls ys"
  by (induction xs rule: remote_calls.induct) simp_all

lemma store_queries_append: "store_queries (xs @ ys) = store_queries xs @ store_queries ys"
  by (induction xs rule: store_queries.induct) simp_all

lemma truthy_get_prop: "truthy v \<Longrightarrow> \<exists>x. get_prop v k = Inr x"
  by (cases v) simp_all

lemma sent_responses_unhandled: "sent_responses (unhandled p) = []"
  by (cases p) simp_all

lemma sent_responses_floating: "sent_responses (concat (map unhandled ps)) = []"
  by (induction ps) (simp_all add: sent_responses_append sent_responses_unhandled)

lemma remote_calls_unhandled: "remote_calls (unhandled p) = []"
  by (cases p) simp_all

lemma remote_calls_floating: "remote_calls (concat (map unhandled ps)) = []"
  by (induction ps) (simp_all add: remote_calls_append remote_calls_unhandled)

subsection \<open>fetchCustomerData\<close>

lemma fst_fetchCustomerData:
  "snd (fetchCustomerData e u) = Resolved c \<Longrightarrow>
   fst (fetchCustomerData e u) = [RemoteCall (CustomerQuery u)]"
  by (auto simp: fetchCustomerData_def customer_failure_def Let_def
      split: call_result.splits promise.splits sum.splits)

lemma sent_responses_fetchCustomerData: "sent_responses (fst (fetchCustomerData e u)) = []"
  by (simp add: fetchCustomerData_def customer_failure_def Let_def
      split: call_result.splits promise.splits sum.splits)

lemma fetchCustomerData_found:
  assumes "client_query e (CustomerQuery u) = Returns (Resolved (data_response ''customer'' c))"
  shows "fetchCustomerData e u = ([RemoteCall (CustomerQuery u)], Resolved c)"
  using assms
  by (simp add: fetchCustomerData_def Let_def bind_thrown_def data_response_def obj_get_def)

subsection \<open>fetchProductData\<close>

lemma returned_fetchProductData:
  "returned (fetchProductData e pid) =
     (case client_query e (ProductQuery pid) of
        Throws x \<Rightarrow> Rejected product_failure
      | Returns p0 \<Rightarrow>
          (case client_query e (ProductImageList pid) of
             Throws x \<Rightarrow> Rejected product_failure
           | Returns p1 \<Rightarrow> Resolved JUndefined))"
  by (simp add: fetchProductData_def Let_def split: call_result.splits)

lemma sent_responses_calls_fetchProductData:
  "sent_responses (calls (fetchProductData e pid)) = []"
  by (simp add: fetchProductData_def Let_def split: call_result.splits)

lemma merge_responses_no_media:
  assumes "truthy product"
  shows "merge_responses (JArr [data_response ''product'' product, no_media]) = Inr product"
  using assms
  by (simp add: merge_responses_def bind_thrown_def data_response_def no_media_def obj_get_def)

lemma floating_fetchProductData_no_media:
  assumes "client_query e (ProductQuery pid) = Returns (Resolved (data_response ''product'' product))"
    and "client_query e (ProductImageList pid) = Returns (Resolved no_media)"
    and "truthy product"
  shows "floating (fetchProductData e pid) = [Resolved product]"
  using assms
  by (simp add: fetchProductData_def Let_def promise_all_def settle_def merge_responses_no_media)

subsection \<open>The stages of the route\<close>

lemma sent_responses_product_stage:
  "sent_responses (product_stage (fetchProductData e) fn pi fav) =
     (case returned (fetchProductData e fav) of
        Resolved v \<Rightarrow> [(404, error_body ''Product not found'')]
      | Rejected x \<Rightarrow> []
      | Pending \<Rightarrow> [])"
  by (simp add: product_stage_def Let_def split_def sent_responses_append
      sent_responses_unhandled sent_responses_floating sent_responses_calls_fetchProductData
      returned_fetchProductData on_product_data_def settle_def log_product_error_def
      split: call_result.splits)

lemma remote_calls_product_stage:
  "remote_calls (product_stage (fetchProductData e) fn pi fav) =
     ProductQuery fav #
     (case client_query e (ProductQuery fav) of
        Throws x \<Rightarrow> []
      | Returns p \<Rightarrow> [ProductImageList fav])"
  by (simp add: product_stage_def Let_def split_def remote_calls_append
      remote_calls_unhandled remote_calls_floating fetchProductData_def
      on_product_data_def settle_def log_product_error_def error_body_def
      split: call_result.splits)

lemma on_store_result_rows:
  assumes "\<not> truthy err" and "get_prop_opt row ''favorite_product_id'' = Inr fav"
  shows "on_store_result fetch fn pi err (JArr (row # rows)) = product_stage fetch fn pi fav"
  using assms by (simp add: on_store_result_def bind_thrown_def)

lemma users_handler_with_found:
  assumes "truthy (obj_get query ''user_id'')"
    and "snd (fetchCustomerData e (obj_get query ''user_id'')) = Resolved c"
    and "truthy c"
    and "get_prop c ''firstName'' = Inr fn"
    and "get_prop c ''image'' = Inr pi"
    and "db_query e (obj_get query ''user_id'') = (err, results)"
  shows "users_handler_with fetch e query =
           RemoteCall (CustomerQuery (obj_get query ''user_id'')) #
           StoreQuery (obj_get query ''user_id'') # on_store_result fetch fn pi err results"
proof -
  have "fetchCustomerData e (obj_get query ''user_id'') =
          ([RemoteCall (CustomerQuery (obj_get query ''user_id''))], Resolved c)"
    using assms(2) fst_fetchCustomerData [OF assms(2)] by (simp add: prod_eq_iff)
  then show ?thesis
    using assms(1,3-6)
    by (simp add: users_handler_with_def on_customer_data_def settle_def bind_thrown_def Let_def)
qed

lemma handler_customer_found:
  assumes "truthy (obj_get query ''user_id'')"
    and "snd (fetchCustomerData e (obj_get query ''user_id'')) = Resolved c"
    and "truthy c"
    and "db_query e (obj_get query ''user_id'') = (err, results)"
  shows "\<exists>fn pi. get_prop c ''firstName'' = Inr fn \<and> get_prop c ''image'' = Inr pi \<and>
           users_handler_with fetch e query =
             RemoteCall (CustomerQuery (obj_get query ''user_id'')) #
             StoreQuery (obj_get query ''user_id'') # on_store_result fetch fn pi err results"
proof -
  obtain fn where fn: "get_prop c ''firstName'' = Inr fn"
    using truthy_get_prop [OF assms(3)] by blast
  obtain pi where pi: "get_prop c ''image'' = Inr pi"
    using truthy_get_prop [OF assms(3)] by blast
  from users_handler_with_found [OF assms(1-3) fn pi assms(4)] fn pi
  show ?thesis by blast
qed

lemma product_stage_200:
  assumes "sent_responses (calls (fetch fav)) = []"
    and "(200, body) \<in> set (sent_responses (product_stage fetch fn pi fav))"
  shows "\<exists>pd. returned (fetch fav) = Resolved pd \<and> truthy pd \<and> landing_view fn pi pd = Inr body"
proof (cases "returned (fetch fav)")
  case (Resolved pd)
  with assms show ?thesis
    by (auto simp: product_stage_def Let_def split_def sent_responses_append
        sent_responses_unhandled sent_responses_floating on_product_data_def settle_def
        log_product_error_def fail_customer_def error_body_def
        split: if_splits sum.splits)
next
  case (Rejected x)
  with assms show ?thesis
    by (simp add: product_stage_def Let_def split_def sent_responses_append
        sent_responses_unhandled sent_responses_floating settle_def log_product_error_def)
next
  case Pending
  with assms show ?thesis
    by (simp add: product_stage_def Let_def split_def sent_responses_append
        sent_responses_unhandled sent_responses_floating)
qed

lemma on_store_result_200:
  assumes "\<forall>i. sent_responses (calls (fetch i)) = []"
    and "(200, body) \<in> set (sent_responses (on_store_result fetch fn pi err results))"
  shows "\<exists>fav pd. returned (fetch fav) = Resolved pd \<and> truthy pd \<and> landing_view fn pi pd = Inr body"
  using assms product_stage_200 [of fetch _ body fn pi]
  by (auto simp: on_store_result_def error_body_def split: if_splits sum.splits) blast

lemma handler_200:
  assumes "\<forall>i. sent_responses (calls (fetch i)) = []"
    and "(200, body) \<in> set (sent_responses (users_handler_with fetch e query))"
  shows "\<exists>customer firstName profileImage favoriteProductId product.
           snd (fetchCustomerData e (obj_get query ''user_id'')) = Resolved customer \<and>
           truthy customer \<and>
           get_prop customer ''firstName'' = Inr firstName \<and>
           get_prop customer ''image'' = Inr profileImage \<and>
           returned (fetch favoriteProductId) = Resolved product \<and>
           truthy product \<and>
           landing_view firstName profileImage product = Inr body"
proof -
  let ?u = "obj_get query ''user_id''"
  have u: "truthy ?u"
    using assms(2) by (auto simp: users_handler_with_def Let_def error_body_def split: if_splits)
  obtain es p where f: "fetchCustomerData e ?u = (es, p)"
    by (cases "fetchCustomerData e ?u")
  have es: "sent_responses es = []"
    using sent_responses_fetchCustomerData [of e ?u] f by simp
  obtain err results where db: "db_query e ?u = (err, results)"
    by (cases "db_query e ?u")
  from assms(2) u f es obtain c where c: "p = Resolved c"
    using sent_responses_unhandled
    by (cases p) (auto simp: users_handler_with_def Let_def sent_responses_append)
  have tc: "truthy c"
    using assms(2) u f es c
    by (auto simp: users_handler_with_def Let_def sent_responses_append on_customer_data_def
        settle_def error_body_def split: if_splits)
  have "snd (fetchCustomerData e ?u) = Resolved c"
    using f c by simp
  from handler_customer_found [OF u this tc db, of fetch]
  obtain fn pi where fn: "get_prop c ''firstName'' = Inr fn" and pi: "get_prop c ''image'' = Inr pi"
    and h: "users_handler_with fetch e query =
      RemoteCall (CustomerQuery ?u) # StoreQuery ?u # on_store_result fetch fn pi err results"
    by blast
  from assms(2) h have "(200, body) \<in> set (sent_responses (on_store_result fetch fn pi err results))"
    by simp
  from on_store_result_200 [OF assms(1) this]
  obtain fav pd where "returned (fetch fav) = Resolved pd" "truthy pd" "landing_view fn pi pd = Inr body"
    by blast
  with f c tc fn pi show ?thesis by auto
qed

lemma users_handler_no_200:
  "(200, body) \<notin> set (sent_responses (users_handler e query))"
proof
  assume "(200, body) \<in> set (sent_responses (users_handler e query))"
  then have "(200, body) \<in> set (sent_responses (users_handler_with (fetchProductData e) e query))"
    by (simp add: users_handler_def)
  from handler_200 [OF _ this]
  obtain fav pd where "returned (fetchProductData e fav) = Resolved pd" "truthy pd"
    using sent_responses_calls_fetchProductData by blast
  then show False
    by (auto simp: returned_fetchProductData split: call_result.splits)
qed

lemma users_handler_valid_chain:
  assumes "truthy (obj_get query ''user_id'')"
    and "snd (fetchCustomerData e (obj_get query ''user_id'')) = Resolved customer"
    and "truthy customer"
    and "db_query e (obj_get query ''user_id'') = (err, JArr (row # rows))"
    and "\<not> truthy err"
    and "get_prop_opt row ''favorite_product_id'' = Inr fav"
  shows "\<exists>fn pi. users_handler e query =
           RemoteCall (CustomerQuery (obj_get query ''user_id'')) #
           StoreQuery (obj_get query ''user_id'') #
           product_stage (fetchProductData e) fn pi fav"
  using handler_customer_found [OF assms(1-4), of "fetchProductData e"]
    on_store_result_rows [OF assms(5,6)]
  by (auto simp: users_handler_def)

lemma users_handler_reaches_product_stage:
  assumes "truthy (obj_get query ''user_id'')"
    and "snd (fetchCustomerData e (obj_get query ''user_id'')) = Resolved customer"
    and "truthy customer"
    and "db_query e (obj_get query ''user_id'') = (err, JArr (row # rows))"
    and "\<not> truthy err"
    and "get_prop_opt row ''favorite_product_id'' = Inr fav"
    and "client_query e (ProductQuery fav) = Returns p0"
    and "client_query e (ProductImageList fav) = Returns p1"
  shows "sent_responses (users_handler e query) = [(404, error_body ''Product not found'')]"
proof -
  obtain fn pi where "users_handler e query =
      RemoteCall (CustomerQuery (obj_get query ''user_id'')) #
      StoreQuery (obj_get query ''user_id'') # product_stage (fetchProductData e) fn pi fav"
    using users_handler_valid_chain [OF assms(1-6)] by blast
  then show ?thesis
    using assms(7,8) by (simp add: sent_responses_product_stage returned_fetchProductData)
qed

section \<open>The claims\<close>

subsection \<open>The example and the valid chains\<close>

text \<open>
  Claim C1. The end-to-end example: \<^verbatim>\<open>GET /users?user_id=42\<close>, the customer
  \<^verbatim>\<open>{id:42, firstName:"Ana", image:{src:"https://x/a.png"}}\<close>, the stored favourite 99,
  the product \<^verbatim>\<open>{id:99, title:"Mug", description:"Ceramic", onlineStoreUrl:"https://shop/mug"}\<close>
  and no media node. The claim expects 200 with the composed body. What the handler does
  on this input: the merge callback does produce the product, in a promise nobody reads;
  \<^verbatim>\<open>fetchProductData\<close> resolves to \<^verbatim>\<open>undefined\<close> and the one response is 404.
\<close>

theorem example_request_gets_404:
  "users_handler example_env example_query =
     [RemoteCall (CustomerQuery (JStr ''42'')),
      StoreQuery (JStr ''42''),
      RemoteCall (ProductQuery (JNum 99)),
      RemoteCall (ProductImageList (JNum 99)),
      Respond 404 (JObj [(''error'', JStr ''Product not found'')])]
   \<and> returned (fetchProductData example_env (JNum 99)) = Resolved JUndefined
   \<and> floating (fetchProductData example_env (JNum 99)) = [Resolved example_product]"
proof -
  have q: "obj_get example_query ''user_id'' = JStr ''42''"
    by (simp add: example_query_def obj_get_def)
  have c: "fetchCustomerData example_env (JStr ''42'') =
      ([RemoteCall (CustomerQuery (JStr ''42''))], Resolved example_customer)"
    by (rule fetchCustomerData_found) (simp add: example_env_def client_of_def)
  have pa: "client_query example_env (ProductQuery (JNum 99)) =
      Returns (Resolved (data_response ''product'' example_product))"
    by (simp add: example_env_def client_of_def)
  have pb: "client_query example_env (ProductImageList (JNum 99)) = Returns (Resolved no_media)"
    by (simp add: example_env_def client_of_def)
  have tp: "truthy example_product"
    by (simp add: example_product_def)
  have f: "fetchProductData example_env (JNum 99) =
      \<lparr>calls = [RemoteCall (ProductQuery (JNum 99)), RemoteCall (ProductImageList (JNum 99))],
       returned = Resolved JUndefined,
       floating = [Resolved example_product]\<rparr>"
    using pa pb tp
    by (simp add: fetchProductData_def Let_def promise_all_def settle_def merge_responses_no_media)
  have h1: "truthy (obj_get example_query ''user_id'')"
    by (simp add: q)
  have h2: "snd (fetchCustomerData example_env (obj_get example_query ''user_id'')) =
      Resolved example_customer"
    by (simp add: q c)
  have h3: "truthy example_customer"
    by (simp add: example_customer_def)
  have fn: "get_prop example_customer ''firstName'' = Inr (JStr ''Ana'')"
    by (simp add: example_customer_def obj_get_def)
  have pi: "get_prop example_customer ''image'' = Inr (JObj [(''src'', JStr ''https://x/a.png'')])"
    by (simp add: example_customer_def obj_get_def)
  have db: "db_query example_env (obj_get example_query ''user_id'') =
      (JNull, JArr (favorite_row (JNum 99) # []))"
    by (simp add: example_env_def store_of_def)
  have row: "get_prop_opt (favorite_row (JNum 99)) ''favorite_product_id'' = Inr (JNum 99)"
    by (simp add: get_prop_opt_def favorite_row_def obj_get_def)
  have stage: "product_stage (fetchProductData example_env) (JStr ''Ana'')
          (JObj [(''src'', JStr ''https://x/a.png'')]) (JNum 99) =
      [RemoteCall (ProductQuery (JNum 99)), RemoteCall (ProductImageList (JNum 99)),
       Respond 404 (JObj [(''error'', JStr ''Product not found'')])]"
    by (simp add: product_stage_def f on_product_data_def settle_def error_body_def)
  have "users_handler example_env example_query =
     [RemoteCall (CustomerQuery (JStr ''42'')), StoreQuery (JStr ''42''),
      RemoteCall (ProductQuery (JNum 99)), RemoteCall (ProductImageList (JNum 99)),
      Respond 404 (JObj [(''error'', JStr ''Product not found'')])]"
    unfolding users_handler_def
    by (simp add: users_handler_with_found [OF h1 h2 h3 fn pi db]
        on_store_result_rows [OF _ row] stage q)
  with f show ?thesis by simp
qed

text \<open>
  Claim C2. For every valid chain (a customer found, a favourite row, the product
  found, no image node) the claim expects 200 with the product and
  \<^verbatim>\<open>product.image = null\<close>. What the handler does on every such chain: the only
  response is 404 "Product not found", while the product the merge callback computed
  stays in the promise that \<^verbatim>\<open>fetchProductData\<close> leaves behind.
\<close>

theorem valid_chain_gets_404:
  assumes "truthy (obj_get query ''user_id'')"
    and "snd (fetchCustomerData e (obj_get query ''user_id'')) = Resolved customer"
    and "truthy customer"
    and "db_query e (obj_get query ''user_id'') = (err, JArr (row # rows))"
    and "\<not> truthy err"
    and "get_prop_opt row ''favorite_product_id'' = Inr favoriteProductId"
    and "client_query e (ProductQuery favoriteProductId) =
           Returns (Resolved (data_response ''product'' product))"
    and "truthy product"
    and "client_query e (ProductImageList favoriteProductId) = Returns (Resolved no_media)"
  shows "sent_responses (users_handler e query) =
           [(404, JObj [(''error'', JStr ''Product not found'')])]
       \<and> floating (fetchProductData e favoriteProductId) = [Resolved product]"
  using users_handler_reaches_product_stage [OF assms(1-6) assms(7) assms(9)]
    floating_fetchProductData_no_media [OF assms(7) assms(9) assms(8)]
  by (simp add: error_body_def)

theorem valid_chain_gets_404_witness:
  "truthy (obj_get other_query ''user_id'')
   \<and> snd (fetchCustomerData other_env (obj_get other_query ''user_id'')) = Resolved other_customer
   \<and> truthy other_customer
   \<and> truthy other_product
   \<and> sent_responses (users_handler other_env other_query) =
        [(404, JObj [(''error'', JStr ''Product not found'')])]
   \<and> floating (fetchProductData other_env (JStr ''gid://shopify/Product/5'')) =
        [Resolved other_product]"
proof -
  have q: "obj_get other_query ''user_id'' = JStr ''7''"
    by (simp add: other_query_def obj_get_def)
  have c: "fetchCustomerData other_env (JStr ''7'') =
      ([RemoteCall (CustomerQuery (JStr ''7''))], Resolved other_customer)"
    by (rule fetchCustomerData_found) (simp add: other_env_def client_of_def)
  have h1: "truthy (obj_get other_query ''user_id'')"
    by (simp add: q)
  have h2: "snd (fetchCustomerData other_env (obj_get other_query ''user_id'')) =
      Resolved other_customer"
    by (simp add: q c)
  have h3: "truthy other_customer"
    by (simp add: other_customer_def)
  have h4: "db_query other_env (obj_get other_query ''user_id'') =
      (JNull, JArr (favorite_row (JStr ''gid://shopify/Product/5'') # []))"
    by (simp add: other_env_def store_of_def)
  have h5: "\<not> truthy JNull"
    by simp
  have h6: "get_prop_opt (favorite_row (JStr ''gid://shopify/Product/5'')) ''favorite_product_id'' =
      Inr (JStr ''gid://shopify/Product/5'')"
    by (simp add: get_prop_opt_def favorite_row_def obj_get_def)
  have h7: "client_query other_env (ProductQuery (JStr ''gid://shopify/Product/5'')) =
      Returns (Resolved (data_response ''product'' other_product))"
    by (simp add: other_env_def client_of_def)
  have h8: "truthy other_product"
    by (simp add: other_product_def)
  have h9: "client_query other_env (ProductImageList (JStr ''gid://shopify/Product/5'')) =
      Returns (Resolved no_media)"
    by (simp add: other_env_def client_of_def)
  from valid_chain_gets_404 [OF h1 h2 h3 h4 h5 h6 h7 h8 h9] h1 h2 h3 h8
  show ?thesis by simp
qed

subsection \<open>What fetchProductData returns\<close>

text \<open>
  Claim C3. Whenever both product sub-queries resolve, \<^verbatim>\<open>fetchProductData\<close> returns a
  promise that resolves to \<^verbatim>\<open>undefined\<close>: the value of the merge callback is never
  returned. So every request that gets as far as the product fetch, with both
  sub-queries resolving, is answered 404 "Product not found", and no request at all,
  whatever the remote API and the store do, is answered 200.
\<close>

theorem fetchProductData_resolves_undefined:
  "(client_query e (ProductQuery productId) = Returns (Resolved r0) \<and>
    client_query e (ProductImageList productId) = Returns (Resolved r1) \<longrightarrow>
      returned (fetchProductData e productId) = Resolved JUndefined)
   \<and> (truthy (obj_get query ''user_id'') \<and>
      snd (fetchCustomerData e (obj_get query ''user_id'')) = Resolved customer \<and>
      truthy customer \<and>
      db_query e (obj_get query ''user_id'') = (err, JArr (row # rows)) \<and>
      \<not> truthy err \<and>
      get_prop_opt row ''favorite_product_id'' = Inr favoriteProductId \<and>
      client_query e (ProductQuery favoriteProductId) = Returns (Resolved a) \<and>
      client_query e (ProductImageList favoriteProductId) = Returns (Resolved b) \<longrightarrow>
        sent_responses (users_handler e query) =
          [(404, JObj [(''error'', JStr ''Product not found'')])])
   \<and> (\<forall>body. (200, body) \<notin> set (sent_responses (users_handler e query)))"
proof (intro conjI impI allI)
  assume "client_query e (ProductQuery productId) = Returns (Resolved r0) \<and>
    client_query e (ProductImageList productId) = Returns (Resolved r1)"
  then show "returned (fetchProductData e productId) = Resolved JUndefined"
    by (simp add: returned_fetchProductData)
next
  assume "truthy (obj_get query ''user_id'') \<and>
      snd (fetchCustomerData e (obj_get query ''user_id'')) = Resolved customer \<and>
      truthy customer \<and>
      db_query e (obj_get query ''user_id'') = (err, JArr (row # rows)) \<and>
      \<not> truthy err \<and>
      get_prop_opt row ''favorite_product_id'' = Inr favoriteProductId \<and>
      client_query e (ProductQuery favoriteProductId) = Returns (Resolved a) \<and>
      client_query e (ProductImageList favoriteProductId) = Returns (Resolved b)"
  then show "sent_responses (users_handler e query) =
      [(404, JObj [(''error'', JStr ''Product not found'')])]"
    using users_handler_reaches_product_stage
      [of query e customer err row rows favoriteProductId "Resolved a" "Resolved b"]
    by (simp add: error_body_def)
next
  fix body
  show "(200, body) \<notin> set (sent_responses (users_handler e query))"
    by (rule users_handler_no_200)
qed

theorem fetchProductData_resolves_undefined_witness:
  "client_query example_env (ProductQuery (JNum 99)) =
     Returns (Resolved (data_response ''product'' example_product))
   \<and> client_query example_env (ProductImageList (JNum 99)) = Returns (Resolved no_media)
   \<and> returned (fetchProductData example_env (JNum 99)) = Resolved JUndefined
   \<and> truthy (obj_get example_query ''user_id'')
   \<and> snd (fetchCustomerData example_env (obj_get example_query ''user_id'')) =
       Resolved example_customer
   \<and> truthy example_customer
   \<and> db_query example_env (obj_get example_query ''user_id'') =
       (JNull, JArr [favorite_row (JNum 99)])
   \<and> get_prop_opt (favorite_row (JNum 99)) ''favorite_product_id'' = Inr (JNum 99)
   \<and> sent_responses (users_handler example_env example_query) =
       [(404, JObj [(''error'', JStr ''Product not found'')])]"
proof -
  have q: "obj_get example_query ''user_id'' = JStr ''42''"
    by (simp add: example_query_def obj_get_def)
  have c: "fetchCustomerData example_env (JStr ''42'') =
      ([RemoteCall (CustomerQuery (JStr ''42''))], Resolved example_customer)"
    by (rule fetchCustomerData_found) (simp add: example_env_def client_of_def)
  have h1: "truthy (obj_get example_query ''user_id'')"
    by (simp add: q)
  have h2: "snd (fetchCustomerData example_env (obj_get example_query ''user_id'')) =
      Resolved example_customer"
    by (simp add: q c)
  have h3: "truthy example_customer"
    by (simp add: example_customer_def)
  have h4: "db_query example_env (obj_get example_query ''user_id'') =
      (JNull, JArr [favorite_row (JNum 99)])"
    by (simp add: example_env_def store_of_def)
  have h6: "get_prop_opt (favorite_row (JNum 99)) ''favorite_product_id'' = Inr (JNum 99)"
    by (simp add: get_prop_opt_def favorite_row_def obj_get_def)
  have h7: "client_query example_env (ProductQuery (JNum 99)) =
      Returns (Resolved (data_response ''product'' example_product))"
    by (simp add: example_env_def client_of_def)
  have h8: "client_query example_env (ProductImageList (JNum 99)) = Returns (Resolved no_media)"
    by (simp add: example_env_def client_of_def)
  from fetchProductData_resolves_undefined
    [of example_env "JNum 99" "data_response ''product'' example_product" no_media
       example_query example_customer JNull "favorite_row (JNum 99)" "[]" "JNum 99"
       "data_response ''product'' example_product" no_media]
    h1 h2 h3 h4 h6 h7 h8
  show ?thesis by simp
qed

subsection \<open>Failure paths\<close>

text \<open>
  Claim C4. Every failure path of \<^verbatim>\<open>GET /users\<close> should end by sending exactly one
  response, none with only a log. What the handler does when the customer lookup
  rejects: \<^verbatim>\<open>fetchCustomerData\<close> logs and rethrows, the promise of
  \<^verbatim>\<open>fetchCustomerData(userId).then(...)\<close> has no rejection handler (the
  \<^verbatim>\<open>catch\<close> that answers 500 is chained on the product fetch), and the request
  ends with the log and an unhandled rejection: no response is sent.
\<close>

theorem customer_rejection_sends_no_response:
  "users_handler (rejecting_env (JError ''ECONNRESET'')) example_query =
     [RemoteCall (CustomerQuery (JStr ''42'')),
      ConsoleError ''Error fetching customer data:'' (JError ''ECONNRESET''),
      UnhandledRejection (JError ''Failed to fetch customer data'')]
   \<and> sent_responses (users_handler (rejecting_env (JError ''ECONNRESET'')) example_query) = []"
proof -
  have q: "obj_get example_query ''user_id'' = JStr ''42''"
    by (simp add: example_query_def obj_get_def)
  have c: "client_query (rejecting_env (JError ''ECONNRESET'')) (CustomerQuery (JStr ''42'')) =
      Returns (Rejected (JError ''ECONNRESET''))"
    by (simp add: rejecting_env_def client_of_def)
  have "users_handler (rejecting_env (JError ''ECONNRESET'')) example_query =
     [RemoteCall (CustomerQuery (JStr ''42'')),
      ConsoleError ''Error fetching customer data:'' (JError ''ECONNRESET''),
      UnhandledRejection (JError ''Failed to fetch customer data'')]"
    by (simp add: users_handler_def users_handler_with_def Let_def q fetchCustomerData_def c
        customer_failure_def)
  then show ?thesis by simp
qed

text \<open>
  Claim C5. When the remote customer lookup rejects, the failure should reach the
  caller as the 500 response "Failed to fetch customer data". What the handler does:
  \<^verbatim>\<open>fetchCustomerData\<close> classifies the failure (it logs and rejects with the Error
  "Failed to fetch customer data"), but the handler that would answer 500 hangs on the
  product chain, so the rejection is handled by nobody and no response is sent.
\<close>

theorem customer_rejection_not_answered_500:
  assumes "truthy (obj_get query ''user_id'')"
    and "client_query e (CustomerQuery (obj_get query ''user_id'')) = Returns (Rejected error)"
  shows "snd (fetchCustomerData e (obj_get query ''user_id'')) =
           Rejected (JError ''Failed to fetch customer data'')
       \<and> users_handler e query =
           [RemoteCall (CustomerQuery (obj_get query ''user_id'')),
            ConsoleError ''Error fetching customer data:'' error,
            UnhandledRejection (JError ''Failed to fetch customer data'')]
       \<and> sent_responses (users_handler e query) = []"
  using assms
  by (simp add: users_handler_def users_handler_with_def Let_def fetchCustomerData_def
      customer_failure_def)

theorem customer_rejection_not_answered_500_witness:
  "truthy (obj_get other_query ''user_id'')
   \<and> client_query (rejecting_env (JError ''GraphqlQueryError''))
        (CustomerQuery (obj_get other_query ''user_id'')) =
       Returns (Rejected (JError ''GraphqlQueryError''))
   \<and> users_handler (rejecting_env (JError ''GraphqlQueryError'')) other_query =
       [RemoteCall (CustomerQuery (JStr ''7'')),
        ConsoleError ''Error fetching customer data:'' (JError ''GraphqlQueryError''),
        UnhandledRejection (JError ''Failed to fetch customer data'')]
   \<and> sent_responses (users_handler (rejecting_env (JError ''GraphqlQueryError'')) other_query) = []"
proof -
  have q: "obj_get other_query ''user_id'' = JStr ''7''"
    by (simp add: other_query_def obj_get_def)
  have h1: "truthy (obj_get other_query ''user_id'')"
    by (simp add: q)
  have h2: "client_query (rejecting_env (JError ''GraphqlQueryError''))
        (CustomerQuery (obj_get other_query ''user_id'')) =
       Returns (Rejected (JError ''GraphqlQueryError''))"
    by (simp add: rejecting_env_def client_of_def)
  from customer_rejection_not_answered_500 [OF h1 h2] h1 h2 q
  show ?thesis by simp
qed

subsection \<open>Early exits\<close>

text \<open>
  Claim C6. When the \<^verbatim>\<open>user_id\<close> query parameter is missing or the empty string,
  the handler answers 400 with an error body and does nothing else: no remote call, no
  store query.
\<close>

theorem missing_user_id_400:
  assumes "map_of query ''user_id'' = None \<or> map_of query ''user_id'' = Some (JStr [])"
  shows "users_handler e query =
           [Respond 400 (JObj [(''error'', JStr ''Missing user_id query parameter'')])]
       \<and> remote_calls (users_handler e query) = []
       \<and> store_queries (users_handler e query) = []"
  using assms
  by (auto simp: users_handler_def users_handler_with_def obj_get_def error_body_def Let_def)

theorem missing_user_id_400_witness:
  "map_of ([] :: (string \<times> jsval) list) ''user_id'' = None
   \<and> map_of [(''user_id'', JStr [])] ''user_id'' = Some (JStr [])
   \<and> users_handler example_env [] =
       [Respond 400 (JObj [(''error'', JStr ''Missing user_id query parameter'')])]
   \<and> users_handler example_env [(''user_id'', JStr [])] =
       [Respond 400 (JObj [(''error'', JStr ''Missing user_id query parameter'')])]
   \<and> remote_calls (users_handler example_env []) = []
   \<and> store_queries (users_handler example_env []) = []"
proof -
  have h1: "map_of ([] :: (string \<times> jsval) list) ''user_id'' = None"
    by simp
  have h2: "map_of [(''user_id'', JStr [])] ''user_id'' = Some (JStr [])"
    by simp
  from missing_user_id_400 [of "[]" example_env]
    missing_user_id_400 [of "[(''user_id'', JStr [])]" example_env] h1 h2
  show ?thesis by simp
qed

text \<open>
  Claim C7. When the remote customer lookup succeeds and returns no customer
  (\<^verbatim>\<open>response.data.customer\<close> is \<^verbatim>\<open>null\<close>, or any falsy value), the handler answers
  404 "Customer not found" and issues no store query.
\<close>

theorem customer_not_found_404:
  assumes "truthy (obj_get query ''user_id'')"
    and "client_query e (CustomerQuery (obj_get query ''user_id'')) = Returns (Resolved response)"
    and "get_prop response ''data'' = Inr d"
    and "get_prop d ''customer'' = Inr customer"
    and "\<not> truthy customer"
  shows "users_handler e query =
           [RemoteCall (CustomerQuery (obj_get query ''user_id'')),
            Respond 404 (JObj [(''error'', JStr ''Customer not found'')])]
       \<and> store_queries (users_handler e query) = []"
  using assms
  by (simp add: users_handler_def users_handler_with_def fetchCustomerData_def
      bind_thrown_def on_customer_data_def settle_def error_body_def Let_def)

theorem customer_not_found_404_witness:
  "truthy (obj_get example_query ''user_id'')
   \<and> client_query no_customer_env (CustomerQuery (obj_get example_query ''user_id'')) =
       Returns (Resolved (data_response ''customer'' JNull))
   \<and> get_prop (data_response ''customer'' JNull) ''data'' = Inr (JObj [(''customer'', JNull)])
   \<and> get_prop (JObj [(''customer'', JNull)]) ''customer'' = Inr JNull
   \<and> users_handler no_customer_env example_query =
       [RemoteCall (CustomerQuery (JStr ''42'')),
        Respond 404 (JObj [(''error'', JStr ''Customer not found'')])]
   \<and> store_queries (users_handler no_customer_env example_query) = []"
proof -
  have q: "obj_get example_query ''user_id'' = JStr ''42''"
    by (simp add: example_query_def obj_get_def)
  have h1: "truthy (obj_get example_query ''user_id'')"
    by (simp add: q)
  have h2: "client_query no_customer_env (CustomerQuery (obj_get example_query ''user_id'')) =
       Returns (Resolved (data_response ''customer'' JNull))"
    by (simp add: no_customer_env_def client_of_def)
  have h3: "get_prop (data_response ''customer'' JNull) ''data'' = Inr (JObj [(''customer'', JNull)])"
    by (simp add: data_response_def obj_get_def)
  have h4: "get_prop (JObj [(''customer'', JNull)]) ''customer'' = Inr JNull"
    by (simp add: obj_get_def)
  have h5: "\<not> truthy JNull"
    by simp
  from customer_not_found_404 [OF h1 h2 h3 h4 h5] h1 h2 h3 h4 q
  show ?thesis by simp
qed

subsection \<open>The store stage\<close>

text \<open>
  Claim C8. For a found customer: when the store query succeeds with zero rows the
  handler answers 404 "Favorite product not found" and issues no remote product query
  (the customer lookup is the only remote call); when the store query faults the handler
  answers 500 "Database query error".
\<close>

theorem favorite_not_found_404_store_fault_500:
  assumes "truthy (obj_get query ''user_id'')"
    and "snd (fetchCustomerData e (obj_get query ''user_id'')) = Resolved customer"
    and "truthy customer"
    and "db_query e (obj_get query ''user_id'') = (err, results)"
  shows "(\<not> truthy err \<and> results = JArr [] \<longrightarrow>
            sent_responses (users_handler e query) =
              [(404, JObj [(''error'', JStr ''Favorite product not found'')])]
            \<and> remote_calls (users_handler e query) = [CustomerQuery (obj_get query ''user_id'')])
       \<and> (truthy err \<longrightarrow>
            sent_responses (users_handler e query) =
              [(500, JObj [(''error'', JStr ''Database query error'')])])"
proof -
  obtain fn pi where "users_handler e query =
      RemoteCall (CustomerQuery (obj_get query ''user_id'')) #
      StoreQuery (obj_get query ''user_id'') #
      on_store_result (fetchProductData e) fn pi err results"
    using handler_customer_found [OF assms] unfolding users_handler_def by blast
  then show ?thesis
    by (simp add: on_store_result_def error_body_def)
qed

theorem favorite_not_found_404_store_fault_500_witness:
  "truthy (obj_get example_query ''user_id'')
   \<and> truthy example_customer
   \<and> snd (fetchCustomerData (store_env JNull (JArr [])) (obj_get example_query ''user_id'')) =
       Resolved example_customer
   \<and> db_query (store_env JNull (JArr [])) (obj_get example_query ''user_id'') = (JNull, JArr [])
   \<and> sent_responses (users_handler (store_env JNull (JArr [])) example_query) =
       [(404, JObj [(''error'', JStr ''Favorite product not found'')])]
   \<and> remote_calls (users_handler (store_env JNull (JArr [])) example_query) =
       [CustomerQuery (JStr ''42'')]
   \<and> truthy (JError ''ER_NO_SUCH_TABLE'')
   \<and> snd (fetchCustomerData (store_env (JError ''ER_NO_SUCH_TABLE'') JUndefined)
          (obj_get example_query ''user_id'')) = Resolved example_customer
   \<and> sent_responses (users_handler (store_env (JError ''ER_NO_SUCH_TABLE'') JUndefined)
        example_query) =
       [(500, JObj [(''error'', JStr ''Database query error'')])]"
proof -
  have q: "obj_get example_query ''user_id'' = JStr ''42''"
    by (simp add: example_query_def obj_get_def)
  have h1: "truthy (obj_get example_query ''user_id'')"
    by (simp add: q)
  have c: "fetchCustomerData (store_env err results) (JStr ''42'') =
      ([RemoteCall (CustomerQuery (JStr ''42''))], Resolved example_customer)" for err results
    by (rule fetchCustomerData_found) (simp add: store_env_def example_env_def client_of_def)
  have h2: "snd (fetchCustomerData (store_env err results) (obj_get example_query ''user_id'')) =
      Resolved example_customer" for err results
    by (simp add: q c)
  have h3: "truthy example_customer"
    by (simp add: example_customer_def)
  have h4: "db_query (store_env err results) (obj_get example_query ''user_id'') = (err, results)"
    for err results
    by (simp add: store_env_def store_of_def)
  from favorite_not_found_404_store_fault_500 [OF h1 h2 h3 h4, of JNull "JArr []"]
    favorite_not_found_404_store_fault_500 [OF h1 h2 h3 h4, of "JError ''ER_NO_SUCH_TABLE''" JUndefined]
    h1 h2 h3 h4 q
  show ?thesis by simp
qed

text \<open>
  Claim C10. When the store returns a row whose \<^verbatim>\<open>favorite_product_id\<close> is NULL, the
  handler does not answer 404 "Favorite product not found" (it tests only
  \<^verbatim>\<open>results.length === 0\<close>): it goes on and calls the remote product lookup with the
  null identifier.
\<close>

theorem null_favorite_reaches_product_lookup:
  assumes "truthy (obj_get query ''user_id'')"
    and "snd (fetchCustomerData e (obj_get query ''user_id'')) = Resolved customer"
    and "truthy customer"
    and "db_query e (obj_get query ''user_id'') = (err, JArr (row # rows))"
    and "\<not> truthy err"
    and "get_prop row ''favorite_product_id'' = Inr JNull"
  shows "(404, JObj [(''error'', JStr ''Favorite product not found'')])
           \<notin> set (sent_responses (users_handler e query))
       \<and> ProductQuery JNull \<in> set (remote_calls (users_handler e query))"
proof -
  have "get_prop_opt row ''favorite_product_id'' = Inr JNull"
    using assms(6) by (cases row) (simp_all add: get_prop_opt_def)
  from users_handler_valid_chain [OF assms(1-5) this]
  obtain fn pi where "users_handler e query =
      RemoteCall (CustomerQuery (obj_get query ''user_id'')) #
      StoreQuery (obj_get query ''user_id'') #
      product_stage (fetchProductData e) fn pi JNull"
    by blast
  then show ?thesis
    by (simp add: sent_responses_product_stage remote_calls_product_stage error_body_def
        split: promise.splits)
qed

theorem null_favorite_reaches_product_lookup_witness:
  "truthy (obj_get example_query ''user_id'')
   \<and> truthy example_customer
   \<and> snd (fetchCustomerData (store_env JNull (JArr [favorite_row JNull]))
          (obj_get example_query ''user_id'')) = Resolved example_customer
   \<and> db_query (store_env JNull (JArr [favorite_row JNull])) (obj_get example_query ''user_id'') =
       (JNull, JArr [favorite_row JNull])
   \<and> get_prop (favorite_row JNull) ''favorite_product_id'' = Inr JNull
   \<and> (404, JObj [(''error'', JStr ''Favorite product not found'')])
        \<notin> set (sent_responses (users_handler (store_env JNull (JArr [favorite_row JNull]))
                  example_query))
   \<and> ProductQuery JNull
        \<in> set (remote_calls (users_handler (store_env JNull (JArr [favorite_row JNull]))
                  example_query))"
proof -
  let ?e = "store_env JNull (JArr [favorite_row JNull])"
  have q: "obj_get example_query ''user_id'' = JStr ''42''"
    by (simp add: example_query_def obj_get_def)
  have h1: "truthy (obj_get example_query ''user_id'')"
    by (simp add: q)
  have c: "fetchCustomerData ?e (JStr ''42'') =
      ([RemoteCall (CustomerQuery (JStr ''42''))], Resolved example_customer)"
    by (rule fetchCustomerData_found) (simp add: store_env_def example_env_def client_of_def)
  have h2: "snd (fetchCustomerData ?e (obj_get example_query ''user_id'')) =
      Resolved example_customer"
    by (simp add: q c)
  have h3: "truthy example_customer"
    by (simp add: example_customer_def)
  have h4: "db_query ?e (obj_get example_query ''user_id'') =
      (JNull, JArr (favorite_row JNull # []))"
    by (simp add: store_env_def store_of_def)
  have h5: "\<not> truthy JNull"
    by simp
  have h6: "get_prop (favorite_row JNull) ''favorite_product_id'' = Inr JNull"
    by (simp add: favorite_row_def obj_get_def)
  from null_favorite_reaches_product_lookup [OF h1 h2 h3 h4 h5 h6] h1 h2 h3 h4 h6
  show ?thesis by simp
qed

subsection \<open>The success body\<close>

text \<open>
  Claim C9. The 200 body is built only when both a customer profile and a product were
  resolved, and no 200 response carries partial data. Of this handler more is true:
  for every request, and whatever the remote API and the store do, no response of the
  route has status 200. The success branch needs a truthy \<^verbatim>\<open>productData\<close>, and
  \<^verbatim>\<open>fetchProductData\<close> resolves to \<^verbatim>\<open>undefined\<close> or rejects; so no success body,
  partial or whole, is ever sent, and every failure surfaces as an error response or
  as no response.
\<close>

theorem no_success_response_without_product:
  "(200, body) \<notin> set (sent_responses (users_handler e query))"
  by (rule users_handler_no_200)

end
